theory Spec2Isabelle
  imports Main "HOL-Library.Word"
begin

unbundle bit_operations_syntax

section \<open>Physical memory attributes\<close>

text \<open>
  Modelled from the spec: the class \<open>Pma\<close> of \<open>PmaManager.hpp\<close>, which \<open>Memory.hpp\<close>
  includes but which is not among the sources. The spec gives a PMA the bitfields
  \<open>{read, write, exec, mmr, iccm, dccm}\<close> (the fields of \<open>PageAttribs\<close> in \<open>Memory.hpp\<close>,
  where the mmr bit is called \<open>reg_\<close>); two PMAs are equal when all their bits are.
\<close>

record Pma =
  pma_read :: bool
  pma_write :: bool
  pma_exec :: bool
  pma_reg :: bool
  pma_iccm :: bool
  pma_dccm :: bool

definition isRead :: "Pma \<Rightarrow> bool" where
  "isRead p = pma_read p"

definition isWrite :: "Pma \<Rightarrow> bool" where
  "isWrite p = pma_write p"

definition isExec :: "Pma \<Rightarrow> bool" where
  "isExec p = pma_exec p"

definition isMemMappedReg :: "Pma \<Rightarrow> bool" where
  "isMemMappedReg p = pma_reg p"

text \<open>
  Modelled from the spec: a page is mapped iff any of \<open>{read, write, exec}\<close> is set
  (as \<open>PageAttribs::isMapped\<close> has it).
\<close>

definition isMapped :: "Pma \<Rightarrow> bool" where
  "isMapped p = (pma_read p \<or> pma_write p \<or> pma_exec p)"

text \<open>
  Modelled from the spec: the class \<open>PmaManager\<close> (not among the sources). \<open>Memory\<close> uses
  two of its queries, both total: the PMA of an address and the write mask of the
  memory-mapped register word containing an address. They are taken as parameters.
\<close>

record PmaManager =
  pmaOf :: "64 word \<Rightarrow> Pma"
  maskOf :: "64 word \<Rightarrow> 32 word"

definition getPma :: "PmaManager \<Rightarrow> 64 word \<Rightarrow> Pma" where
  "getPma mgr addr = pmaOf mgr addr"

definition getMemMappedMask :: "PmaManager \<Rightarrow> 64 word \<Rightarrow> 32 word" where
  "getMemMappedMask mgr addr = maskOf mgr addr"

section \<open>The state of a memory\<close>

text \<open>
  The members of the source end in an underscore, which a name cannot here: they lose
  it, and those of \<open>Reservation\<close> and \<open>LastWriteData\<close>, which share names, are told
  apart by a prefix.

  \<open>Memory::Reservation\<close>: \<open>size_t addr_\<close>, \<open>unsigned size_\<close>, \<open>bool valid_\<close>.
\<close>

record Reservation =
  res_addr :: "64 word"
  res_size :: "32 word"
  res_valid :: bool

text \<open>\<open>Memory::LastWriteData\<close>: \<open>unsigned size_\<close>, \<open>size_t addr_\<close>, \<open>uint64_t value_\<close>,
  \<open>uint64_t prevValue_\<close>.\<close>

record LastWriteData =
  lwd_size :: "32 word"
  lwd_addr :: "64 word"
  lwd_value :: "64 word"
  lwd_prevValue :: "64 word"

text \<open>
  The members of \<open>Memory\<close> that the access functions use. The backing store \<open>data_\<close> is
  a pointer to bytes in the source, which the access functions index with the address
  and without a bounds check of their own (outside a \<open>FAST_SLOPPY\<close> build, which is not
  modelled); it is a map from addresses to bytes here.
\<close>

record Memory =
  mem_size :: "64 word"
  data :: "64 word \<Rightarrow> 8 word"
  reservations :: "Reservation list"
  lastWriteData :: "LastWriteData list"
  pmaMgr :: PmaManager

text \<open>
  A function that returns \<open>bool\<close> returns \<open>true\<close> (\<open>Done\<close>) or \<open>false\<close> (\<open>Rejected\<close>, with
  the check that failed), or leaves through the \<open>std::out_of_range\<close> that
  \<open>std::vector::at\<close> throws on a hart id that has no slot (\<open>Thrown\<close>). The memory exists
  after the call in each case, so the state is always returned.
\<close>

datatype failure = NoAccess | Straddle | BadMmr

datatype outcome = Done | Rejected failure | Thrown

definition returnsFalse :: "outcome \<Rightarrow> bool" where
  "returnsFalse r = (case r of Rejected f \<Rightarrow> True | _ \<Rightarrow> False)"

section \<open>Typed access to the backing store\<close>

text \<open>
  The template parameter \<open>T\<close> of the access functions is the type \<open>'a word\<close>, of
  \<open>sizeof(T) = LENGTH('a) div 8\<close> bytes; the source instantiates it with
  \<open>uint8_t\<close>, \<open>uint16_t\<close>, \<open>uint32_t\<close> and \<open>uint64_t\<close>.
\<close>

definition sizeof :: "'a::len itself \<Rightarrow> nat" where
  "sizeof T = LENGTH('a) div 8"

text \<open>\<open>address & (sizeof(T) - 1)\<close>, in \<open>size_t\<close>.\<close>

definition misaligned :: "'a::len itself \<Rightarrow> 64 word \<Rightarrow> bool" where
  "misaligned T address = (address AND (of_nat (sizeof T) - 1) \<noteq> 0)"

text \<open>\<open>address + sizeof(T) - 1\<close>, in \<open>size_t\<close>: the address of the last byte.\<close>

definition lastByte :: "'a::len itself \<Rightarrow> 64 word \<Rightarrow> 64 word" where
  "lastByte T address = address + of_nat (sizeof T) - 1"

text \<open>
  \<open>*(reinterpret_cast<T*>(data_ + address))\<close> reads or writes \<open>sizeof(T)\<close> consecutive
  bytes, the least significant first (the host is little-endian, as RISC-V is).
\<close>

primrec toBytes :: "nat \<Rightarrow> 'a::len word \<Rightarrow> 8 word list" where
  "toBytes 0 v = []"
| "toBytes (Suc n) v = ucast v # toBytes n (drop_bit 8 v)"

primrec fromBytes :: "8 word list \<Rightarrow> 'a::len word" where
  "fromBytes [] = 0"
| "fromBytes (b # bs) = ucast b OR push_bit 8 (fromBytes bs)"

primrec loadBytes :: "(64 word \<Rightarrow> 8 word) \<Rightarrow> 64 word \<Rightarrow> nat \<Rightarrow> 8 word list" where
  "loadBytes d a 0 = []"
| "loadBytes d a (Suc n) = d a # loadBytes d (a + 1) n"

primrec storeBytes :: "(64 word \<Rightarrow> 8 word) \<Rightarrow> 64 word \<Rightarrow> 8 word list \<Rightarrow> 64 word \<Rightarrow> 8 word" where
  "storeBytes d a [] = d"
| "storeBytes d a (b # bs) = storeBytes (d(a := b)) (a + 1) bs"

definition load :: "(64 word \<Rightarrow> 8 word) \<Rightarrow> 64 word \<Rightarrow> 'a::len word" where
  "load d address = fromBytes (loadBytes d address (sizeof TYPE('a)))"

definition store :: "(64 word \<Rightarrow> 8 word) \<Rightarrow> 64 word \<Rightarrow> 'a::len word \<Rightarrow> 64 word \<Rightarrow> 8 word" where
  "store d address v = storeBytes d address (toBytes (sizeof TYPE('a)) v)"

section \<open>Memory mapped registers\<close>

definition readRegister :: "64 word \<Rightarrow> Memory \<Rightarrow> failure + 32 word" where
  "readRegister addr m =
     (if addr AND 3 \<noteq> 0 then Inl BadMmr
      else Inr (load (data m) addr))"

definition getMemoryMappedMask :: "64 word \<Rightarrow> Memory \<Rightarrow> 32 word" where
  "getMemoryMappedMask addr m = getMemMappedMask (pmaMgr m) addr"

definition doRegisterMasking :: "64 word \<Rightarrow> 32 word \<Rightarrow> Memory \<Rightarrow> 32 word" where
  "doRegisterMasking addr v m = (let mask = getMemoryMappedMask addr m in v AND mask)"

definition writeRegister :: "nat \<Rightarrow> 64 word \<Rightarrow> 32 word \<Rightarrow> Memory \<Rightarrow> outcome \<times> Memory" where
  "writeRegister localHartId addr v m =
     (if addr AND 3 \<noteq> 0 then (Rejected BadMmr, m)
      else
        let v' = doRegisterMasking addr v m in
        if \<not> localHartId < length (lastWriteData m) then (Thrown, m)
        else
          let prev = (load (data m) addr :: 32 word);
              lwd = \<lparr>lwd_size = 4, lwd_addr = addr, lwd_value = ucast v',
                     lwd_prevValue = ucast prev\<rparr>
          in (Done, m\<lparr>data := store (data m) addr v',
                       lastWriteData := (lastWriteData m)[localHartId := lwd]\<rparr>))"

section \<open>Reads\<close>

definition read :: "64 word \<Rightarrow> Memory \<Rightarrow> failure + 'a::len word" where
  "read address m =
     (let pma1 = getPma (pmaMgr m) address in
      if \<not> isRead pma1 then Inl NoAccess
      else if misaligned TYPE('a) address
              \<and> pma1 \<noteq> getPma (pmaMgr m) (lastByte TYPE('a) address)
        then Inl Straddle
      else if isMemMappedReg pma1 then
        (if sizeof TYPE('a) = 4
           then (case readRegister address m of Inl e \<Rightarrow> Inl e | Inr w \<Rightarrow> Inr (ucast w))
           else Inl BadMmr)
      else Inr (load (data m) address))"

definition readByte :: "64 word \<Rightarrow> Memory \<Rightarrow> failure + 8 word" where
  "readByte address m =
     (let pma = getPma (pmaMgr m) address in
      if \<not> isRead pma then Inl NoAccess
      else if isMemMappedReg pma then Inl BadMmr
      else Inr (data m address))"

section \<open>Writes and pokes\<close>

text \<open>\<open>Memory::write<T>\<close>; the name \<open>write\<close> is a command of Isabelle, hence \<open>writeT\<close>.\<close>

definition writeT :: "nat \<Rightarrow> 64 word \<Rightarrow> 'a::len word \<Rightarrow> Memory \<Rightarrow> outcome \<times> Memory" where
  "writeT localHartId address v m =
     (let pma1 = getPma (pmaMgr m) address in
      if \<not> isWrite pma1 then (Rejected NoAccess, m)
      else if misaligned TYPE('a) address
              \<and> pma1 \<noteq> getPma (pmaMgr m) (lastByte TYPE('a) address)
        then (Rejected Straddle, m)
      else if isMemMappedReg pma1 then
        (if sizeof TYPE('a) \<noteq> 4 then (Rejected BadMmr, m)
         else writeRegister localHartId address (ucast v) m)
      else if \<not> localHartId < length (lastWriteData m) then (Thrown, m)
      else
        let lwd = \<lparr>lwd_size = of_nat (sizeof TYPE('a)), lwd_addr = address,
                   lwd_value = ucast v,
                   lwd_prevValue = ucast (load (data m) address :: 'a word)\<rparr>
        in (Done, m\<lparr>lastWriteData := (lastWriteData m)[localHartId := lwd],
                     data := store (data m) address v\<rparr>))"

definition writeByte :: "nat \<Rightarrow> 64 word \<Rightarrow> 8 word \<Rightarrow> Memory \<Rightarrow> outcome \<times> Memory" where
  "writeByte localHartId address v m =
     (let pma = getPma (pmaMgr m) address in
      if \<not> isWrite pma then (Rejected NoAccess, m)
      else if isMemMappedReg pma then (Rejected BadMmr, m)
      else if \<not> localHartId < length (lastWriteData m) then (Thrown, m)
      else
        let lwd = \<lparr>lwd_size = 1, lwd_addr = address, lwd_value = ucast v,
                   lwd_prevValue = ucast (data m address)\<rparr>
        in (Done, m\<lparr>lastWriteData := (lastWriteData m)[localHartId := lwd],
                     data := (data m)(address := v)\<rparr>))"

definition poke :: "64 word \<Rightarrow> 'a::len word \<Rightarrow> Memory \<Rightarrow> outcome \<times> Memory" where
  "poke address v m =
     (let pma1 = getPma (pmaMgr m) address in
      if \<not> isMapped pma1 then (Rejected NoAccess, m)
      else if misaligned TYPE('a) address
              \<and> \<not> isMapped (getPma (pmaMgr m) (lastByte TYPE('a) address))
        then (Rejected Straddle, m)
      else if isMemMappedReg pma1 then
        (if sizeof TYPE('a) \<noteq> 4 then (Rejected BadMmr, m)
         else if address AND 3 \<noteq> 0 then (Rejected BadMmr, m)
         else
           let v' = (ucast (doRegisterMasking address (ucast v) m) :: 'a word)
           in (Done, m\<lparr>data := store (data m) address v'\<rparr>))
      else (Done, m\<lparr>data := store (data m) address v\<rparr>))"

definition pokeByte :: "64 word \<Rightarrow> 8 word \<Rightarrow> Memory \<Rightarrow> outcome \<times> Memory" where
  "pokeByte address v m =
     (let pma = getPma (pmaMgr m) address in
      if \<not> isMapped pma then (Rejected NoAccess, m)
      else if isMemMappedReg pma then (Rejected BadMmr, m)
      else (Done, m\<lparr>data := (data m)(address := v)\<rparr>))"

section \<open>The last write of a hart\<close>

text \<open>
  The two accessors return the size of the last write and set the reference parameters
  \<open>addr\<close> and \<open>value\<close> when the size is not zero: the result is the returned size with
  the contents of \<open>addr\<close> and \<open>value\<close> after the call, or \<open>None\<close> when
  \<open>lastWriteData_.at\<close> throws.
\<close>

definition getLastWriteNewValue ::
    "nat \<Rightarrow> 64 word \<Rightarrow> 64 word \<Rightarrow> Memory \<Rightarrow> (32 word \<times> 64 word \<times> 64 word) option" where
  "getLastWriteNewValue localHartId addr v m =
     (if \<not> localHartId < length (lastWriteData m) then None
      else
        let lwd = lastWriteData m ! localHartId in
        if lwd_size lwd \<noteq> 0 then Some (lwd_size lwd, lwd_addr lwd, lwd_value lwd)
        else Some (lwd_size lwd, addr, v))"

definition getLastWriteOldValue ::
    "nat \<Rightarrow> 64 word \<Rightarrow> 64 word \<Rightarrow> Memory \<Rightarrow> (32 word \<times> 64 word \<times> 64 word) option" where
  "getLastWriteOldValue localHartId addr v m =
     (if \<not> localHartId < length (lastWriteData m) then None
      else
        let lwd = lastWriteData m ! localHartId in
        if lwd_size lwd \<noteq> 0 then Some (lwd_size lwd, lwd_addr lwd, lwd_value lwd)
        else Some (lwd_size lwd, addr, v))"

definition clearLastWriteInfo :: "nat \<Rightarrow> Memory \<Rightarrow> outcome \<times> Memory" where
  "clearLastWriteInfo localHartId m =
     (if \<not> localHartId < length (lastWriteData m) then (Thrown, m)
      else (Done, m\<lparr>lastWriteData :=
              (lastWriteData m)[localHartId := (lastWriteData m ! localHartId)\<lparr>lwd_size := 0\<rparr>]\<rparr>))"

section \<open>Reservations\<close>

text \<open>
  The body of the loops of \<open>invalidateOtherHartLr\<close> and \<open>invalidateLrs\<close>: the two
  comparisons are in \<open>size_t\<close>, the \<open>unsigned\<close> sizes converted to it.
\<close>

definition invalidateMatching :: "64 word \<Rightarrow> 32 word \<Rightarrow> Reservation \<Rightarrow> Reservation" where
  "invalidateMatching addr storeSize res =
     (if addr \<ge> res_addr res \<and> addr - res_addr res < ucast (res_size res)
        then res\<lparr>res_valid := False\<rparr>
      else if addr < res_addr res \<and> res_addr res - addr < ucast storeSize
        then res\<lparr>res_valid := False\<rparr>
      else res)"

text \<open>The loops, from index \<open>i\<close> on, over the reservations that are left.\<close>

primrec otherHartLoop :: "nat \<Rightarrow> nat \<Rightarrow> 64 word \<Rightarrow> 32 word \<Rightarrow> Reservation list \<Rightarrow> Reservation list" where
  "otherHartLoop i localHartId addr storeSize [] = []"
| "otherHartLoop i localHartId addr storeSize (res # rest) =
     (if i = localHartId then res else invalidateMatching addr storeSize res)
       # otherHartLoop (Suc i) localHartId addr storeSize rest"

primrec allHartLoop :: "64 word \<Rightarrow> 32 word \<Rightarrow> Reservation list \<Rightarrow> Reservation list" where
  "allHartLoop addr storeSize [] = []"
| "allHartLoop addr storeSize (res # rest) =
     invalidateMatching addr storeSize res # allHartLoop addr storeSize rest"

definition invalidateOtherHartLr :: "nat \<Rightarrow> 64 word \<Rightarrow> 32 word \<Rightarrow> Memory \<Rightarrow> Memory" where
  "invalidateOtherHartLr localHartId addr storeSize m =
     m\<lparr>reservations := otherHartLoop 0 localHartId addr storeSize (reservations m)\<rparr>"

definition invalidateLrs :: "64 word \<Rightarrow> 32 word \<Rightarrow> Memory \<Rightarrow> Memory" where
  "invalidateLrs addr storeSize m =
     m\<lparr>reservations := allHartLoop addr storeSize (reservations m)\<rparr>"

definition invalidateLr :: "nat \<Rightarrow> Memory \<Rightarrow> outcome \<times> Memory" where
  "invalidateLr localHartId m =
     (if \<not> localHartId < length (reservations m) then (Thrown, m)
      else (Done, m\<lparr>reservations :=
              (reservations m)[localHartId := (reservations m ! localHartId)\<lparr>res_valid := False\<rparr>]\<rparr>))"

definition makeLr :: "nat \<Rightarrow> 64 word \<Rightarrow> 32 word \<Rightarrow> Memory \<Rightarrow> outcome \<times> Memory" where
  "makeLr localHartId addr sz m =
     (if \<not> localHartId < length (reservations m) then (Thrown, m)
      else (Done, m\<lparr>reservations :=
              (reservations m)[localHartId :=
                 \<lparr>res_addr = addr, res_size = sz, res_valid = True\<rparr>]\<rparr>))"

definition hasLr :: "nat \<Rightarrow> 64 word \<Rightarrow> Memory \<Rightarrow> bool option" where
  "hasLr localHartId addr m =
     (if \<not> localHartId < length (reservations m) then None
      else
        let res = reservations m ! localHartId
        in Some (res_valid res \<and> res_addr res = addr))"

text \<open>\<open>setHartCount\<close> resizes both vectors; \<open>std::vector::resize\<close> drops the slots past
  \<open>count\<close> or appends value-initialised ones (all zero, not valid).\<close>

definition resize :: "nat \<Rightarrow> 'b \<Rightarrow> 'b list \<Rightarrow> 'b list" where
  "resize count dflt xs = take count xs @ replicate (count - length xs) dflt"

definition setHartCount :: "nat \<Rightarrow> Memory \<Rightarrow> Memory" where
  "setHartCount count m =
     m\<lparr>reservations :=
         resize count \<lparr>res_addr = 0, res_size = 0, res_valid = False\<rparr> (reservations m),
       lastWriteData :=
         resize count \<lparr>lwd_size = 0, lwd_addr = 0, lwd_value = 0, lwd_prevValue = 0\<rparr>
           (lastWriteData m)\<rparr>"

section \<open>Ranges of addresses\<close>

text \<open>
  The half-open ranges \<open>[a, a + n)\<close> and \<open>[r, r + s)\<close> of addresses, read as ranges of
  natural numbers, overlap when they have an address in common.
\<close>

definition rangesOverlap :: "64 word \<Rightarrow> nat \<Rightarrow> 64 word \<Rightarrow> nat \<Rightarrow> bool" where
  "rangesOverlap a n r s = (max (unat a) (unat r) < min (unat a + n) (unat r + s))"

text \<open>
  The test of \<open>invalidateOtherHartLr\<close> and \<open>invalidateLrs\<close> read on natural numbers:
  \<open>addr\<close> lies in \<open>[res.addr, res.addr + res.size)\<close>, or \<open>res.addr\<close> lies strictly
  above \<open>addr\<close> and below \<open>addr + storeSize\<close>.
\<close>

definition lrIntersects :: "64 word \<Rightarrow> 32 word \<Rightarrow> Reservation \<Rightarrow> bool" where
  "lrIntersects addr storeSize res =
     ((unat (res_addr res) \<le> unat addr \<and> unat addr < unat (res_addr res) + unat (res_size res))
      \<or> (unat addr < unat (res_addr res) \<and> unat (res_addr res) < unat addr + unat storeSize))"

text \<open>
  The intersection test in the words of the specification: \<open>addr\<close> lies in
  \<open>[res.addr, res.addr + res.size)\<close> or \<open>res.addr\<close> lies in \<open>[addr, addr + store_size)\<close>.
\<close>

definition specIntersects :: "64 word \<Rightarrow> 32 word \<Rightarrow> Reservation \<Rightarrow> bool" where
  "specIntersects addr storeSize res =
     ((unat (res_addr res) \<le> unat addr \<and> unat addr < unat (res_addr res) + unat (res_size res))
      \<or> (unat addr \<le> unat (res_addr res) \<and> unat (res_addr res) < unat addr + unat storeSize))"

text \<open>
  A table of reservations \<open>rs'\<close> comes from \<open>rs\<close> by clearing valid flags only: the same
  harts, each with the address and size it had, and none valid that was not.
\<close>

definition onlyClears :: "Reservation list \<Rightarrow> Reservation list \<Rightarrow> bool" where
  "onlyClears rs rs' =
     list_all2 (\<lambda>r r'. res_addr r' = res_addr r \<and> res_size r' = res_size r
                        \<and> (res_valid r' \<longrightarrow> res_valid r)) rs rs'"

section \<open>A configured memory\<close>

text \<open>
  The memory of the scenarios: 1 MiB in pages of 4 KiB, two harts, all bytes zero. The
  page at \<open>0x1000\<close> holds memory mapped registers, the register at \<open>0x1000\<close> with the
  write mask \<open>0x0000FFFF\<close>; the page at \<open>0x2000\<close> is read-only; every other page of the
  first MiB can be read, written and executed; nothing is mapped above.
\<close>

definition plainPma :: Pma where
  "plainPma = \<lparr>pma_read = True, pma_write = True, pma_exec = True, pma_reg = False,
               pma_iccm = False, pma_dccm = False\<rparr>"

definition mmrPma :: Pma where
  "mmrPma = \<lparr>pma_read = True, pma_write = True, pma_exec = False, pma_reg = True,
             pma_iccm = False, pma_dccm = False\<rparr>"

definition readOnlyPma :: Pma where
  "readOnlyPma = \<lparr>pma_read = True, pma_write = False, pma_exec = False, pma_reg = False,
                  pma_iccm = False, pma_dccm = False\<rparr>"

definition unmappedPma :: Pma where
  "unmappedPma = \<lparr>pma_read = False, pma_write = False, pma_exec = False, pma_reg = False,
                  pma_iccm = False, pma_dccm = False\<rparr>"

definition scenarioPmaManager :: PmaManager where
  "scenarioPmaManager =
     \<lparr>pmaOf = (\<lambda>a. if a < 0x1000 then plainPma
                    else if a < 0x2000 then mmrPma
                    else if a < 0x3000 then readOnlyPma
                    else if a < 0x100000 then plainPma
                    else unmappedPma),
      maskOf = (\<lambda>a. if drop_bit 2 a = drop_bit 2 0x1000 then 0x0000FFFF else 0xFFFFFFFF)\<rparr>"

definition scenarioMemory :: Memory where
  "scenarioMemory =
     setHartCount 2
       \<lparr>mem_size = 0x100000, data = (\<lambda>a. 0), reservations = [], lastWriteData = [],
        pmaMgr = scenarioPmaManager\<rparr>"

text \<open>
  The same memory after hart 0 has made a reservation of four bytes at \<open>0x200\<close>, and
  after hart 1 has made one of no bytes at \<open>0x200\<close>.
\<close>

definition reservedMemory :: Memory where
  "reservedMemory = snd (makeLr 0 0x200 4 scenarioMemory)"

definition emptyReservationMemory :: Memory where
  "emptyReservationMemory = snd (makeLr 1 0x200 0 scenarioMemory)"

section \<open>Instruction identities\<close>

text \<open>
  \<open>enum class InstId\<close> of \<open>InstId.hpp\<close>: its enumerators in the order of the
  declaration, each with its initialiser if it has one (only \<open>maxId = vrgather_vi\<close>
  has).
\<close>

definition InstId_enumerators :: "(string \<times> string option) list" where
  "InstId_enumerators = [
    (''illegal'', None), (''lui'', None), (''auipc'', None), (''jal'', None), (''jalr'', None),
    (''beq'', None), (''bne'', None), (''blt'', None), (''bge'', None), (''bltu'', None),
    (''bgeu'', None), (''lb'', None), (''lh'', None), (''lw'', None), (''lbu'', None),
    (''lhu'', None), (''sb'', None), (''sh'', None), (''sw'', None), (''addi'', None),
    (''slti'', None), (''sltiu'', None), (''xori'', None), (''ori'', None), (''andi'', None),
    (''slli'', None), (''srli'', None), (''srai'', None), (''add'', None), (''sub'', None),
    (''sll'', None), (''slt'', None), (''sltu'', None), (''xor_'', None), (''srl'', None),
    (''sra'', None), (''or_'', None), (''and_'', None), (''fence'', None), (''fencei'', None),
    (''ecall'', None), (''ebreak'', None), (''csrrw'', None), (''csrrs'', None),
    (''csrrc'', None), (''csrrwi'', None), (''csrrsi'', None), (''csrrci'', None),
    (''lwu'', None), (''ld'', None), (''sd'', None), (''addiw'', None), (''slliw'', None),
    (''srliw'', None), (''sraiw'', None), (''addw'', None), (''subw'', None), (''sllw'', None),
    (''srlw'', None), (''sraw'', None), (''mul'', None), (''mulh'', None), (''mulhsu'', None),
    (''mulhu'', None), (''div'', None), (''divu'', None), (''rem'', None), (''remu'', None),
    (''mulw'', None), (''divw'', None), (''divuw'', None), (''remw'', None), (''remuw'', None),
    (''lr_w'', None), (''sc_w'', None), (''amoswap_w'', None), (''amoadd_w'', None),
    (''amoxor_w'', None), (''amoand_w'', None), (''amoor_w'', None), (''amomin_w'', None),
    (''amomax_w'', None), (''amominu_w'', None), (''amomaxu_w'', None), (''lr_d'', None),
    (''sc_d'', None), (''amoswap_d'', None), (''amoadd_d'', None), (''amoxor_d'', None),
    (''amoand_d'', None), (''amoor_d'', None), (''amomin_d'', None), (''amomax_d'', None),
    (''amominu_d'', None), (''amomaxu_d'', None), (''flw'', None), (''fsw'', None),
    (''fmadd_s'', None), (''fmsub_s'', None), (''fnmsub_s'', None), (''fnmadd_s'', None),
    (''fadd_s'', None), (''fsub_s'', None), (''fmul_s'', None), (''fdiv_s'', None),
    (''fsqrt_s'', None), (''fsgnj_s'', None), (''fsgnjn_s'', None), (''fsgnjx_s'', None),
    (''fmin_s'', None), (''fmax_s'', None), (''fcvt_w_s'', None), (''fcvt_wu_s'', None),
    (''fmv_x_w'', None), (''feq_s'', None), (''flt_s'', None), (''fle_s'', None),
    (''fclass_s'', None), (''fcvt_s_w'', None), (''fcvt_s_wu'', None), (''fmv_w_x'', None),
    (''fcvt_l_s'', None), (''fcvt_lu_s'', None), (''fcvt_s_l'', None), (''fcvt_s_lu'', None),
    (''fld'', None), (''fsd'', None), (''fmadd_d'', None), (''fmsub_d'', None),
    (''fnmsub_d'', None), (''fnmadd_d'', None), (''fadd_d'', None), (''fsub_d'', None),
    (''fmul_d'', None), (''fdiv_d'', None), (''fsqrt_d'', None), (''fsgnj_d'', None),
    (''fsgnjn_d'', None), (''fsgnjx_d'', None), (''fmin_d'', None), (''fmax_d'', None),
    (''fcvt_s_d'', None), (''fcvt_d_s'', None), (''feq_d'', None), (''flt_d'', None),
    (''fle_d'', None), (''fclass_d'', None), (''fcvt_w_d'', None), (''fcvt_wu_d'', None),
    (''fcvt_d_w'', None), (''fcvt_d_wu'', None), (''fcvt_l_d'', None), (''fcvt_lu_d'', None),
    (''fmv_x_d'', None), (''fcvt_d_l'', None), (''fcvt_d_lu'', None), (''fmv_d_x'', None),
    (''mret'', None), (''uret'', None), (''sret'', None), (''wfi'', None),
    (''sfence_vma'', None), (''c_addi4spn'', None), (''c_fld'', None), (''c_lq'', None),
    (''c_lw'', None), (''c_flw'', None), (''c_ld'', None), (''c_fsd'', None), (''c_sq'', None),
    (''c_sw'', None), (''c_fsw'', None), (''c_sd'', None), (''c_addi'', None),
    (''c_jal'', None), (''c_li'', None), (''c_addi16sp'', None), (''c_lui'', None),
    (''c_srli'', None), (''c_srli64'', None), (''c_srai'', None), (''c_srai64'', None),
    (''c_andi'', None), (''c_sub'', None), (''c_xor'', None), (''c_or'', None),
    (''c_and'', None), (''c_subw'', None), (''c_addw'', None), (''c_j'', None),
    (''c_beqz'', None), (''c_bnez'', None), (''c_slli'', None), (''c_slli64'', None),
    (''c_fldsp'', None), (''c_lwsp'', None), (''c_flwsp'', None), (''c_ldsp'', None),
    (''c_jr'', None), (''c_mv'', None), (''c_ebreak'', None), (''c_jalr'', None),
    (''c_add'', None), (''c_fsdsp'', None), (''c_swsp'', None), (''c_fswsp'', None),
    (''c_addiw'', None), (''c_sdsp'', None), (''clz'', None), (''ctz'', None),
    (''pcnt'', None), (''andn'', None), (''orn'', None), (''xnor'', None), (''slo'', None),
    (''sro'', None), (''sloi'', None), (''sroi'', None), (''min'', None), (''max'', None),
    (''minu'', None), (''maxu'', None), (''rol'', None), (''ror'', None), (''rori'', None),
    (''rev8'', None), (''rev'', None), (''pack'', None), (''addwu'', None), (''subwu'', None),
    (''addiwu'', None), (''sext_b'', None), (''sext_h'', None), (''addu_w'', None),
    (''subu_w'', None), (''slliu_w'', None), (''packh'', None), (''packu'', None),
    (''packw'', None), (''packuw'', None), (''grev'', None), (''grevi'', None),
    (''gorc'', None), (''gorci'', None), (''shfl'', None), (''shfli'', None),
    (''unshfl'', None), (''unshfli'', None), (''sbset'', None), (''sbclr'', None),
    (''sbinv'', None), (''sbext'', None), (''sbseti'', None), (''sbclri'', None),
    (''sbinvi'', None), (''sbexti'', None), (''bdep'', None), (''bext'', None),
    (''bfp'', None), (''clmul'', None), (''clmulh'', None), (''clmulr'', None),
    (''sh1add'', None), (''sh2add'', None), (''sh3add'', None), (''sh1addu_w'', None),
    (''sh2addu_w'', None), (''sh3addu_w'', None), (''crc32_b'', None), (''crc32_h'', None),
    (''crc32_w'', None), (''crc32_d'', None), (''crc32c_b'', None), (''crc32c_h'', None),
    (''crc32c_w'', None), (''crc32c_d'', None), (''bmator'', None), (''bmatxor'', None),
    (''bmatflip'', None), (''cmov'', None), (''cmix'', None), (''fsl'', None), (''fsr'', None),
    (''fsri'', None), (''vadd_vv'', None), (''vadd_vx'', None), (''vadd_vi'', None),
    (''vsub_vv'', None), (''vsub_vx'', None), (''vrsub_vx'', None), (''vrsub_vi'', None),
    (''vminu_vv'', None), (''vminu_vx'', None), (''vmin_vv'', None), (''vmin_vx'', None),
    (''vmaxu_vv'', None), (''vmaxu_vx'', None), (''vmax_vv'', None), (''vmax_vx'', None),
    (''vand_vv'', None), (''vand_vx'', None), (''vand_vi'', None), (''vor_vv'', None),
    (''vor_vx'', None), (''vor_vi'', None), (''vxor_vv'', None), (''vxor_vx'', None),
    (''vxor_vi'', None), (''vrgather_vv'', None), (''vrgather_vx'', None),
    (''vrgather_vi'', None), (''maxId'', Some ''vrgather_vi'')]"

text \<open>
  The value of each enumerator, by the rule of the language: an enumerator with an
  initialiser has the value of the initialiser (here always the name of an earlier
  enumerator), one without has the value of the previous enumerator plus one, and zero
  if it is the first. \<open>None\<close> if an initialiser names no earlier enumerator.
\<close>

fun enumValues :: "int \<Rightarrow> (string \<times> int) list \<Rightarrow> (string \<times> string option) list
    \<Rightarrow> (string \<times> int) list option" where
  "enumValues nxt env [] = Some (rev env)"
| "enumValues nxt env ((name, None) # ds) = enumValues (nxt + 1) ((name, nxt) # env) ds"
| "enumValues nxt env ((name, Some init) # ds) =
     (case map_of env init of
        None \<Rightarrow> None
      | Some v \<Rightarrow> enumValues (v + 1) ((name, v) # env) ds)"

definition InstId_values :: "(string \<times> int) list option" where
  "InstId_values = enumValues 0 [] InstId_enumerators"

definition InstId_value :: "string \<Rightarrow> int option" where
  "InstId_value name = (case InstId_values of None \<Rightarrow> None | Some vs \<Rightarrow> map_of vs name)"

text \<open>The opcode identities: every enumerator but the first, \<open>illegal\<close>, and the
  sentinel \<open>maxId\<close>.\<close>

definition opcodeNames :: "string list" where
  "opcodeNames = filter (\<lambda>n. n \<noteq> ''illegal'' \<and> n \<noteq> ''maxId'') (map fst InstId_enumerators)"

section \<open>Bytes and words\<close>

lemma length_toBytes: "length (toBytes n v) = n"
  by (induction n arbitrary: v) simp_all

lemma fromBytes_toBytes: "(fromBytes (toBytes n v) :: 'a::len word) = take_bit (8 * n) v"
proof (induction n arbitrary: v)
  case 0
  show ?case by simp
next
  case (Suc n)
  have "(ucast (ucast v :: 8 word) :: 'a word) OR push_bit 8 (take_bit (8 * n) (drop_bit 8 v))
        = take_bit (8 * Suc n) v"
    by (rule bit_word_eqI) (auto simp add: bit_simps)
  with Suc show ?case by simp
qed

lemma storeBytes_other:
  "\<forall>i < length bs. a + of_nat i \<noteq> x \<Longrightarrow> storeBytes d a bs x = d x"
proof (induction bs arbitrary: d a)
  case Nil
  show ?case by simp
next
  case (Cons b bs)
  have "a \<noteq> x"
    using Cons.prems[rule_format, of 0] by simp
  moreover have "\<forall>i<length bs. (a + 1) + of_nat i \<noteq> x"
  proof (intro allI impI)
    fix i
    assume "i < length bs"
    then show "(a + 1) + of_nat i \<noteq> x"
      using Cons.prems[rule_format, of "Suc i"] by (simp add: add.assoc)
  qed
  ultimately show ?case
    using Cons.IH by simp
qed

text \<open>Fewer than \<open>2 ^ 64\<close> consecutive bytes lie at different addresses, so that
  what was stored is what is loaded.\<close>

lemma loadBytes_storeBytes:
  "length bs \<le> 2 ^ 64 \<Longrightarrow> loadBytes (storeBytes d a bs) a (length bs) = bs"
proof (induction bs arbitrary: d a)
  case Nil
  show ?case by simp
next
  case (Cons b bs)
  have "\<forall>i<length bs. (a + 1) + of_nat i \<noteq> a"
  proof (intro allI impI)
    fix i
    assume i: "i < length bs"
    show "(a + 1) + of_nat i \<noteq> a"
    proof
      assume "(a + 1) + of_nat i = a"
      then have "(of_nat (Suc i) :: 64 word) = 0"
        by (simp add: add.assoc)
      then have "2 ^ 64 dvd Suc i"
        by (simp only: word_of_nat_eq_0_iff) simp
      then have "2 ^ 64 \<le> Suc i"
        by (rule dvd_imp_le) simp
      then show False
        using i Cons.prems by simp
    qed
  qed
  then have "storeBytes (d(a := b)) (a + 1) bs a = b"
    by (simp add: storeBytes_other)
  moreover have "loadBytes (storeBytes (d(a := b)) (a + 1) bs) (a + 1) (length bs) = bs"
    using Cons by simp
  ultimately show ?case by simp
qed

lemma load_store:
  assumes "8 * sizeof TYPE('a::len) = LENGTH('a)" and "sizeof TYPE('a) \<le> 8"
  shows "load (store d a (v :: 'a word)) a = v"
proof -
  have "length (toBytes (sizeof TYPE('a)) v) \<le> 2 ^ 64"
    using assms(2) by (simp add: length_toBytes)
  from loadBytes_storeBytes[OF this]
  have "loadBytes (storeBytes d a (toBytes (sizeof TYPE('a)) v)) a (sizeof TYPE('a))
          = toBytes (sizeof TYPE('a)) v"
    by (simp add: length_toBytes)
  then show ?thesis
    using assms(1) by (simp add: load_def store_def fromBytes_toBytes)
qed

lemma ucast_mask32:
  assumes "LENGTH('a::len) = 32"
  shows "(ucast (ucast (v :: 'a word) AND (k :: 32 word)) :: 'a word) = v AND ucast k"
  by (rule bit_word_eqI) (auto simp add: bit_simps assms)

lemma sizeof_simps:
  "sizeof TYPE(8) = 1" "sizeof TYPE(16) = 2" "sizeof TYPE(32) = 4" "sizeof TYPE(64) = 8"
  by (simp_all add: sizeof_def)

section \<open>The loops over the reservations\<close>

text \<open>Two ranges overlap when some address lies in both.\<close>

lemma rangesOverlap_iff:
  "rangesOverlap a n r s
     = (\<exists>x. unat a \<le> x \<and> x < unat a + n \<and> unat r \<le> x \<and> x < unat r + s)"
proof
  assume "rangesOverlap a n r s"
  then have "unat a \<le> max (unat a) (unat r) \<and> max (unat a) (unat r) < unat a + n
      \<and> unat r \<le> max (unat a) (unat r) \<and> max (unat a) (unat r) < unat r + s"
    by (simp add: rangesOverlap_def)
  then show "\<exists>x. unat a \<le> x \<and> x < unat a + n \<and> unat r \<le> x \<and> x < unat r + s"
    by (rule exI)
next
  assume "\<exists>x. unat a \<le> x \<and> x < unat a + n \<and> unat r \<le> x \<and> x < unat r + s"
  then show "rangesOverlap a n r s"
    by (auto simp add: rangesOverlap_def)
qed

lemma invalidateMatching_eq:
  "invalidateMatching addr storeSize res =
     (if lrIntersects addr storeSize res then res\<lparr>res_valid := False\<rparr> else res)"
proof -
  have up: "unat (ucast (w :: 32 word) :: 64 word) = unat w" for w
  proof -
    have "unat w < 2 ^ 32"
      using unsigned_less[of w, where 'a = nat] by simp
    then have "unat w < 2 ^ 64" by simp
    then show ?thesis
      by (simp add: unsigned_ucast_eq take_bit_nat_eq_self)
  qed
  have 1: "(res_addr res \<le> addr \<and> addr - res_addr res < ucast (res_size res))
           = (unat (res_addr res) \<le> unat addr
              \<and> unat addr < unat (res_addr res) + unat (res_size res))"
    by (auto simp add: word_le_nat_alt word_less_nat_alt unat_sub up)
  have 2: "(addr < res_addr res \<and> res_addr res - addr < ucast storeSize)
           = (unat addr < unat (res_addr res)
              \<and> unat (res_addr res) < unat addr + unat storeSize)"
    by (auto simp add: word_le_nat_alt word_less_nat_alt unat_sub up)
  show ?thesis
    unfolding invalidateMatching_def lrIntersects_def 1 2 by auto
qed

lemma invalidateMatching_fields:
  "res_addr (invalidateMatching a s r) = res_addr r
   \<and> res_size (invalidateMatching a s r) = res_size r
   \<and> (res_valid (invalidateMatching a s r) \<longrightarrow> res_valid r)"
  by (simp add: invalidateMatching_def)

lemma overlap_lrIntersects:
  assumes "rangesOverlap a n (res_addr res) (unat (res_size res))" and "n < 2 ^ 32"
  shows "lrIntersects a (of_nat n) res"
proof -
  have "unat (of_nat n :: 32 word) = n"
    using assms(2) by (simp add: unat_of_nat)
  then show ?thesis
    using assms(1) unfolding rangesOverlap_def lrIntersects_def by auto
qed

lemma length_otherHartLoop: "length (otherHartLoop k h a s rs) = length rs"
  by (induction rs arbitrary: k) simp_all

lemma nth_otherHartLoop:
  "i < length rs \<Longrightarrow>
   otherHartLoop k h a s rs ! i
     = (if k + i = h then rs ! i else invalidateMatching a s (rs ! i))"
proof (induction rs arbitrary: k i)
  case Nil
  then show ?case by simp
next
  case (Cons r rs)
  show ?case
  proof (cases i)
    case 0
    then show ?thesis by simp
  next
    case (Suc j)
    with Cons.prems have "j < length rs" by simp
    from Cons.IH[OF this, of "Suc k"] Suc show ?thesis by simp
  qed
qed

lemma allHartLoop_map: "allHartLoop a s rs = map (invalidateMatching a s) rs"
  by (induction rs) simp_all

section \<open>What a write and a poke leave alone\<close>

lemma writeRegister_frame:
  "reservations (snd (writeRegister h a v m)) = reservations m
   \<and> pmaMgr (snd (writeRegister h a v m)) = pmaMgr m"
  by (simp add: writeRegister_def Let_def)

lemma writeT_frame:
  "reservations (snd (writeT h a v m)) = reservations m
   \<and> pmaMgr (snd (writeT h a v m)) = pmaMgr m"
  by (simp add: writeT_def Let_def writeRegister_frame)

lemma poke_frame:
  "reservations (snd (poke a v m)) = reservations m
   \<and> pmaMgr (snd (poke a v m)) = pmaMgr m
   \<and> lastWriteData (snd (poke a v m)) = lastWriteData m"
  by (simp add: poke_def Let_def)

lemma writeRegister_rejected:
  "fst (writeRegister h a v m) \<noteq> Done \<Longrightarrow> snd (writeRegister h a v m) = m"
  by (simp add: writeRegister_def Let_def split: if_splits)

lemma writeT_rejected:
  "fst (writeT h a v m) \<noteq> Done \<Longrightarrow> snd (writeT h a v m) = m"
  by (simp add: writeT_def Let_def writeRegister_rejected split: if_splits)

lemma poke_rejected:
  "fst (poke a v m) \<noteq> Done \<Longrightarrow> snd (poke a v m) = m"
  by (simp add: poke_def Let_def split: if_splits)

lemma returnsFalse_not_Done: "returnsFalse r \<Longrightarrow> r \<noteq> Done"
  by (auto simp add: returnsFalse_def)

section \<open>The configured memory, evaluated\<close>

lemma scenarioMemory_fields:
  "pmaMgr scenarioMemory = scenarioPmaManager"
  "lastWriteData scenarioMemory
     = [\<lparr>lwd_size = 0, lwd_addr = 0, lwd_value = 0, lwd_prevValue = 0\<rparr>,
        \<lparr>lwd_size = 0, lwd_addr = 0, lwd_value = 0, lwd_prevValue = 0\<rparr>]"
  "reservations scenarioMemory
     = [\<lparr>res_addr = 0, res_size = 0, res_valid = False\<rparr>,
        \<lparr>res_addr = 0, res_size = 0, res_valid = False\<rparr>]"
  "data scenarioMemory = (\<lambda>a. 0)"
  "mem_size scenarioMemory = 0x100000"
  by (simp_all add: scenarioMemory_def setHartCount_def resize_def numeral_2_eq_2)

lemma reservedMemory_fields:
  "pmaMgr reservedMemory = scenarioPmaManager"
  "lastWriteData reservedMemory
     = [\<lparr>lwd_size = 0, lwd_addr = 0, lwd_value = 0, lwd_prevValue = 0\<rparr>,
        \<lparr>lwd_size = 0, lwd_addr = 0, lwd_value = 0, lwd_prevValue = 0\<rparr>]"
  "reservations reservedMemory
     = [\<lparr>res_addr = 0x200, res_size = 4, res_valid = True\<rparr>,
        \<lparr>res_addr = 0, res_size = 0, res_valid = False\<rparr>]"
  "data reservedMemory = (\<lambda>a. 0)"
  by (simp_all add: reservedMemory_def makeLr_def scenarioMemory_fields)

lemma emptyReservationMemory_fields:
  "pmaMgr emptyReservationMemory = scenarioPmaManager"
  "reservations emptyReservationMemory
     = [\<lparr>res_addr = 0, res_size = 0, res_valid = False\<rparr>,
        \<lparr>res_addr = 0x200, res_size = 0, res_valid = True\<rparr>]"
  by (simp_all add: emptyReservationMemory_def makeLr_def scenarioMemory_fields)

lemma scenarioPma:
  "getPma scenarioPmaManager 0 = plainPma"
  "getPma scenarioPmaManager 0x200 = plainPma"
  "getPma scenarioPmaManager 0xFFF = plainPma"
  "getPma scenarioPmaManager 0x1000 = mmrPma"
  "getPma scenarioPmaManager 0x2FFF = readOnlyPma"
  "getPma scenarioPmaManager 0x3000 = plainPma"
  "getPma scenarioPmaManager 0x200000 = unmappedPma"
  by (simp_all add: getPma_def scenarioPmaManager_def)

lemma scenarioMask: "getMemMappedMask scenarioPmaManager 0x1000 = 0xFFFF"
  by (simp add: getMemMappedMask_def scenarioPmaManager_def)

lemma pma_flags:
  "isRead plainPma" "isWrite plainPma" "isMapped plainPma" "\<not> isMemMappedReg plainPma"
  "isRead mmrPma" "isWrite mmrPma" "isMapped mmrPma" "isMemMappedReg mmrPma"
  "isRead readOnlyPma" "\<not> isWrite readOnlyPma" "isMapped readOnlyPma"
  "\<not> isMemMappedReg readOnlyPma"
  "\<not> isRead unmappedPma" "\<not> isWrite unmappedPma" "\<not> isMapped unmappedPma"
  "plainPma \<noteq> readOnlyPma" "readOnlyPma \<noteq> plainPma" "plainPma \<noteq> mmrPma"
  by (simp_all add: isRead_def isWrite_def isMapped_def isMemMappedReg_def
      plainPma_def mmrPma_def readOnlyPma_def unmappedPma_def)

section \<open>Writes and reservations\<close>

text \<open>
  Against claim C1 as stated: in \<open>reservedMemory\<close> hart 0 holds a valid reservation of
  \<open>[0x200, 0x204)\<close>; hart 1 writes a word at \<open>0x200\<close> with success, and the reservation
  of hart 0 is still valid after the write.
\<close>

theorem write_invalidates_counterexample:
  "fst (writeT 1 0x200 (1 :: 32 word) reservedMemory) = Done
   \<and> rangesOverlap 0x200 (sizeof TYPE(32)) (res_addr (reservations reservedMemory ! 0))
        (unat (res_size (reservations reservedMemory ! 0)))
   \<and> res_valid (reservations reservedMemory ! 0)
   \<and> res_valid (reservations (snd (writeT 1 0x200 (1 :: 32 word) reservedMemory)) ! 0)"
proof -
  have "fst (writeT 1 0x200 (1 :: 32 word) reservedMemory) = Done"
    by (simp add: writeT_def Let_def reservedMemory_fields scenarioPma pma_flags
        misaligned_def sizeof_simps)
  moreover have "reservations (snd (writeT 1 0x200 (1 :: 32 word) reservedMemory))
      = reservations reservedMemory"
    by (simp add: writeT_frame)
  ultimately show ?thesis
    by (simp add: reservedMemory_fields rangesOverlap_def sizeof_simps)
qed

text \<open>
  Claim C1, amended: a successful \<open>write(h, a, v)\<close> of width \<open>T\<close> in \<open>{1, 2, 4, 8}\<close>
  changes no reservation, neither that of hart \<open>h\<close> nor that of another hart. The
  invalidation is an operation of its own, left to the caller:
  \<open>invalidateOtherHartLr(h, a, T)\<close>, run after the write, makes invalid the reservation
  of every hart \<open>h' \<noteq> h\<close> whose range \<open>[res.addr, res.addr + res.size)\<close> overlaps
  \<open>[a, a + T)\<close>, and leaves the reservation of hart \<open>h\<close> as it was.
\<close>

theorem write_keeps_reservations:
  fixes v :: "'a::len word"
  assumes ok: "fst (writeT h a v m) = Done"
    and width: "sizeof TYPE('a) \<in> {1, 2, 4, 8}"
  shows "reservations (snd (writeT h a v m)) = reservations m
    \<and> (\<forall>h' < length (reservations m). h' \<noteq> h
          \<and> rangesOverlap a (sizeof TYPE('a)) (res_addr (reservations m ! h'))
                (unat (res_size (reservations m ! h')))
        \<longrightarrow> \<not> res_valid (reservations (invalidateOtherHartLr h a (of_nat (sizeof TYPE('a)))
                (snd (writeT h a v m))) ! h'))
    \<and> (h < length (reservations m)
        \<longrightarrow> reservations (invalidateOtherHartLr h a (of_nat (sizeof TYPE('a)))
                (snd (writeT h a v m))) ! h = reservations m ! h)"
proof -
  have small: "sizeof TYPE('a) < 2 ^ 32"
    using width by auto
  have res: "reservations (snd (writeT h a v m)) = reservations m"
    by (simp add: writeT_frame)
  have other: "\<not> res_valid (reservations (invalidateOtherHartLr h a (of_nat (sizeof TYPE('a)))
                (snd (writeT h a v m))) ! h')"
    if "h' < length (reservations m)" "h' \<noteq> h"
       "rangesOverlap a (sizeof TYPE('a)) (res_addr (reservations m ! h'))
                (unat (res_size (reservations m ! h')))" for h'
    using that overlap_lrIntersects[OF that(3) small]
    by (simp add: invalidateOtherHartLr_def res nth_otherHartLoop invalidateMatching_eq)
  have self: "reservations (invalidateOtherHartLr h a (of_nat (sizeof TYPE('a)))
                (snd (writeT h a v m))) ! h = reservations m ! h"
    if "h < length (reservations m)"
    using that by (simp add: invalidateOtherHartLr_def res nth_otherHartLoop)
  show ?thesis
    using res other self by blast
qed

text \<open>The amended claim at the input of the counterexample: the write of hart 1 keeps
  the reservation of hart 0, and the invalidation that follows clears it and keeps
  that of hart 1.\<close>

theorem write_keeps_reservations_witness:
  "fst (writeT 1 0x200 (1 :: 32 word) reservedMemory) = Done
   \<and> sizeof TYPE(32) \<in> {1, 2, 4, 8}
   \<and> 0 < length (reservations reservedMemory)
   \<and> 1 < length (reservations reservedMemory)
   \<and> rangesOverlap 0x200 (sizeof TYPE(32)) (res_addr (reservations reservedMemory ! 0))
        (unat (res_size (reservations reservedMemory ! 0)))
   \<and> reservations (snd (writeT 1 0x200 (1 :: 32 word) reservedMemory))
        = reservations reservedMemory
   \<and> \<not> res_valid (reservations (invalidateOtherHartLr 1 0x200 (of_nat (sizeof TYPE(32)))
          (snd (writeT 1 0x200 (1 :: 32 word) reservedMemory))) ! 0)
   \<and> reservations (invalidateOtherHartLr 1 0x200 (of_nat (sizeof TYPE(32)))
          (snd (writeT 1 0x200 (1 :: 32 word) reservedMemory))) ! 1
        = reservations reservedMemory ! 1"
proof -
  have ok: "fst (writeT 1 0x200 (1 :: 32 word) reservedMemory) = Done"
    by (simp add: writeT_def Let_def reservedMemory_fields scenarioPma pma_flags
        misaligned_def sizeof_simps)
  have width: "sizeof TYPE(32) \<in> {1, 2, 4, 8}"
    by (simp add: sizeof_simps)
  have len: "0 < length (reservations reservedMemory)" "1 < length (reservations reservedMemory)"
    by (simp_all add: reservedMemory_fields)
  have ov: "rangesOverlap 0x200 (sizeof TYPE(32)) (res_addr (reservations reservedMemory ! 0))
        (unat (res_size (reservations reservedMemory ! 0)))"
    by (simp add: reservedMemory_fields rangesOverlap_def sizeof_simps)
  note th = write_keeps_reservations[OF ok width]
  have "\<not> res_valid (reservations (invalidateOtherHartLr 1 0x200 (of_nat (sizeof TYPE(32)))
          (snd (writeT 1 0x200 (1 :: 32 word) reservedMemory))) ! 0)"
    using th[THEN conjunct2, THEN conjunct1, rule_format, of 0] len(1) ov by simp
  moreover have "reservations (invalidateOtherHartLr 1 0x200 (of_nat (sizeof TYPE(32)))
          (snd (writeT 1 0x200 (1 :: 32 word) reservedMemory))) ! 1
        = reservations reservedMemory ! 1"
    using th[THEN conjunct2, THEN conjunct2] len(2) by simp
  ultimately show ?thesis
    using ok width len ov th[THEN conjunct1] by simp
qed

section \<open>The last write\<close>

text \<open>What a successful write outside the memory mapped registers records for its
  hart: the slot holds the size, the address, the value written and the value that
  was there before, and \<open>getLastWriteNewValue\<close> returns the first three.\<close>

lemma writeT_records:
  fixes v :: "'a::len word"
  assumes ok: "fst (writeT h a v m) = Done"
    and plain: "\<not> isMemMappedReg (getPma (pmaMgr m) a)"
    and width: "sizeof TYPE('a) \<in> {1, 2, 4, 8}"
  shows "lastWriteData (snd (writeT h a v m)) ! h
           = \<lparr>lwd_size = of_nat (sizeof TYPE('a)), lwd_addr = a, lwd_value = ucast v,
              lwd_prevValue = ucast (load (data m) a :: 'a word)\<rparr>
    \<and> getLastWriteNewValue h x y (snd (writeT h a v m))
           = Some (of_nat (sizeof TYPE('a)), a, ucast v)"
proof -
  have nz: "(of_nat (sizeof TYPE('a)) :: 32 word) \<noteq> 0"
    using width by auto
  have h: "h < length (lastWriteData m)"
    using ok plain by (auto simp add: writeT_def Let_def split: if_splits)
  have w: "snd (writeT h a v m) =
      m\<lparr>lastWriteData := (lastWriteData m)[h :=
            \<lparr>lwd_size = of_nat (sizeof TYPE('a)), lwd_addr = a, lwd_value = ucast v,
             lwd_prevValue = ucast (load (data m) a :: 'a word)\<rparr>],
        data := store (data m) a v\<rparr>"
    using ok plain h by (auto simp add: writeT_def Let_def split: if_splits)
  show ?thesis
    unfolding w using h nz by (simp add: getLastWriteNewValue_def Let_def)
qed

text \<open>
  Claim C2 fails on the code: \<open>getLastWriteOldValue\<close> returns \<open>lwd.value_\<close>, the value
  written, where its comment promises the value before the write (\<open>lwd.prevValue_\<close>,
  which the write did record). Hart 0 writes the word \<open>0xDEADBEEF\<close> at address 0 of the
  memory of the scenarios, where \<open>read\<close> returned 0: the new value is reported as
  \<open>(4, 0, 0xDEADBEEF)\<close>, as claimed, and so is the old value, where the claim
  says \<open>(4, 0, 0)\<close>.
\<close>

theorem getLastWriteOldValue_returns_new_value:
  "(read 0 scenarioMemory :: failure + 32 word) = Inr 0
   \<and> fst (writeT 0 0 (0xDEADBEEF :: 32 word) scenarioMemory) = Done
   \<and> getLastWriteNewValue 0 0 0 (snd (writeT 0 0 (0xDEADBEEF :: 32 word) scenarioMemory))
        = Some (4, 0, 0xDEADBEEF)
   \<and> getLastWriteOldValue 0 0 0 (snd (writeT 0 0 (0xDEADBEEF :: 32 word) scenarioMemory))
        = Some (4, 0, 0xDEADBEEF)
   \<and> lwd_prevValue (lastWriteData (snd (writeT 0 0 (0xDEADBEEF :: 32 word) scenarioMemory)) ! 0)
        = 0"
proof -
  have r: "(read 0 scenarioMemory :: failure + 32 word) = Inr 0"
    by (simp add: read_def Let_def scenarioMemory_fields scenarioPma pma_flags
        misaligned_def sizeof_simps load_def eval_nat_numeral)
  have ld: "(load (\<lambda>a. 0) 0 :: 32 word) = 0"
    by (simp add: load_def sizeof_simps eval_nat_numeral)
  have w: "writeT 0 0 (0xDEADBEEF :: 32 word) scenarioMemory =
      (Done, scenarioMemory\<lparr>lastWriteData := (lastWriteData scenarioMemory)[0 :=
            \<lparr>lwd_size = 4, lwd_addr = 0, lwd_value = 0xDEADBEEF, lwd_prevValue = 0\<rparr>],
        data := store (data scenarioMemory) 0 (0xDEADBEEF :: 32 word)\<rparr>)"
    by (simp add: writeT_def Let_def scenarioMemory_fields scenarioPma pma_flags
        misaligned_def sizeof_simps ld)
  show ?thesis
    unfolding w using r
    by (simp add: getLastWriteNewValue_def getLastWriteOldValue_def Let_def
        scenarioMemory_fields)
qed

section \<open>Pokes and reservations\<close>

text \<open>
  Against claim C3 as stated: a word is poked at \<open>0x200\<close> with success, and the valid
  reservation of hart 0 of \<open>[0x200, 0x204)\<close> is still valid after the poke.
\<close>

theorem poke_invalidates_counterexample:
  "fst (poke 0x200 (1 :: 32 word) reservedMemory) = Done
   \<and> rangesOverlap 0x200 (sizeof TYPE(32)) (res_addr (reservations reservedMemory ! 0))
        (unat (res_size (reservations reservedMemory ! 0)))
   \<and> res_valid (reservations reservedMemory ! 0)
   \<and> res_valid (reservations (snd (poke 0x200 (1 :: 32 word) reservedMemory)) ! 0)"
proof -
  have "fst (poke 0x200 (1 :: 32 word) reservedMemory) = Done"
    by (simp add: poke_def Let_def reservedMemory_fields scenarioPma pma_flags
        misaligned_def sizeof_simps)
  moreover have "reservations (snd (poke 0x200 (1 :: 32 word) reservedMemory))
      = reservations reservedMemory"
    by (simp add: poke_frame)
  ultimately show ?thesis
    by (simp add: reservedMemory_fields rangesOverlap_def sizeof_simps)
qed

text \<open>
  Claim C3, amended: a successful \<open>poke\<close> of width \<open>T\<close> in \<open>{1, 2, 4, 8}\<close> at \<open>a\<close>
  changes no reservation. The invalidation is an operation of its own, left to the
  caller: \<open>invalidateLrs(a, T)\<close>, run after the poke, makes invalid the reservation of
  every hart whose range \<open>[res.addr, res.addr + res.size)\<close> overlaps \<open>[a, a + T)\<close>.
\<close>

theorem poke_keeps_reservations:
  fixes v :: "'a::len word"
  assumes ok: "fst (poke a v m) = Done"
    and width: "sizeof TYPE('a) \<in> {1, 2, 4, 8}"
  shows "reservations (snd (poke a v m)) = reservations m
    \<and> (\<forall>h < length (reservations m).
          rangesOverlap a (sizeof TYPE('a)) (res_addr (reservations m ! h))
                (unat (res_size (reservations m ! h)))
        \<longrightarrow> \<not> res_valid (reservations (invalidateLrs a (of_nat (sizeof TYPE('a)))
                (snd (poke a v m))) ! h))"
proof -
  have small: "sizeof TYPE('a) < 2 ^ 32"
    using width by auto
  have res: "reservations (snd (poke a v m)) = reservations m"
    by (simp add: poke_frame)
  have "\<not> res_valid (reservations (invalidateLrs a (of_nat (sizeof TYPE('a)))
                (snd (poke a v m))) ! h)"
    if "h < length (reservations m)"
       "rangesOverlap a (sizeof TYPE('a)) (res_addr (reservations m ! h))
                (unat (res_size (reservations m ! h)))" for h
    using that overlap_lrIntersects[OF that(2) small]
    by (simp add: invalidateLrs_def res allHartLoop_map invalidateMatching_eq)
  with res show ?thesis by blast
qed

theorem poke_keeps_reservations_witness:
  "fst (poke 0x200 (1 :: 32 word) reservedMemory) = Done
   \<and> sizeof TYPE(32) \<in> {1, 2, 4, 8}
   \<and> 0 < length (reservations reservedMemory)
   \<and> rangesOverlap 0x200 (sizeof TYPE(32)) (res_addr (reservations reservedMemory ! 0))
        (unat (res_size (reservations reservedMemory ! 0)))
   \<and> reservations (snd (poke 0x200 (1 :: 32 word) reservedMemory))
        = reservations reservedMemory
   \<and> \<not> res_valid (reservations (invalidateLrs 0x200 (of_nat (sizeof TYPE(32)))
          (snd (poke 0x200 (1 :: 32 word) reservedMemory))) ! 0)"
proof -
  have ok: "fst (poke 0x200 (1 :: 32 word) reservedMemory) = Done"
    by (simp add: poke_def Let_def reservedMemory_fields scenarioPma pma_flags
        misaligned_def sizeof_simps)
  have width: "sizeof TYPE(32) \<in> {1, 2, 4, 8}"
    by (simp add: sizeof_simps)
  have len: "0 < length (reservations reservedMemory)"
    by (simp add: reservedMemory_fields)
  have ov: "rangesOverlap 0x200 (sizeof TYPE(32)) (res_addr (reservations reservedMemory ! 0))
        (unat (res_size (reservations reservedMemory ! 0)))"
    by (simp add: reservedMemory_fields rangesOverlap_def sizeof_simps)
  note th = poke_keeps_reservations[OF ok width]
  have "\<not> res_valid (reservations (invalidateLrs 0x200 (of_nat (sizeof TYPE(32)))
          (snd (poke 0x200 (1 :: 32 word) reservedMemory))) ! 0)"
    using th[THEN conjunct2, rule_format, of 0] len ov by simp
  then show ?thesis
    using ok width len ov th[THEN conjunct1] by simp
qed

section \<open>Accesses that straddle two pages\<close>

text \<open>
  Against claim C4 as stated: the half word poked at \<open>0x2FFF\<close> is misaligned, its first
  byte lies in a mapped page, the PMAs of its first and of its last byte differ (the
  page at \<open>0x2000\<close> is read-only, the page at \<open>0x3000\<close> is not), and the poke
  succeeds.
\<close>

theorem poke_straddle_counterexample:
  "misaligned TYPE(16) 0x2FFF
   \<and> isMapped (getPma (pmaMgr scenarioMemory) 0x2FFF)
   \<and> getPma (pmaMgr scenarioMemory) 0x2FFF
        \<noteq> getPma (pmaMgr scenarioMemory) (lastByte TYPE(16) 0x2FFF)
   \<and> fst (poke 0x2FFF (0xDEAD :: 16 word) scenarioMemory) = Done"
  by (simp add: poke_def Let_def scenarioMemory_fields scenarioPma pma_flags
      misaligned_def lastByte_def sizeof_simps)

text \<open>
  Claim C4, amended: for a misaligned access of width \<open>T\<close> at \<open>a\<close> whose first byte
  passes the gating check (\<open>read\<close> for \<open>read\<close>, \<open>write\<close> for \<open>write\<close>, mapped for
  \<open>poke\<close>), \<open>read\<close> and \<open>write\<close> reject the access as straddling if and only if the
  PMA at \<open>a\<close> and the PMA at \<open>a + T - 1\<close> differ; \<open>poke\<close> has a rule of its own and
  rejects it if and only if the page of the last byte, at \<open>a + T - 1\<close>, is not mapped.
\<close>

theorem straddle_rule:
  fixes v :: "'a::len word"
  assumes mis: "misaligned TYPE('a) a"
  shows "(isRead (getPma (pmaMgr m) a) \<longrightarrow>
            ((read a m :: failure + 'a word) = Inl Straddle)
              = (getPma (pmaMgr m) a \<noteq> getPma (pmaMgr m) (lastByte TYPE('a) a)))
       \<and> (isWrite (getPma (pmaMgr m) a) \<longrightarrow>
            (fst (writeT h a v m) = Rejected Straddle)
              = (getPma (pmaMgr m) a \<noteq> getPma (pmaMgr m) (lastByte TYPE('a) a)))
       \<and> (isMapped (getPma (pmaMgr m) a) \<longrightarrow>
            (fst (poke a v m) = Rejected Straddle)
              = (\<not> isMapped (getPma (pmaMgr m) (lastByte TYPE('a) a))))"
proof (intro conjI impI)
  assume "isRead (getPma (pmaMgr m) a)"
  then show "((read a m :: failure + 'a word) = Inl Straddle)
              = (getPma (pmaMgr m) a \<noteq> getPma (pmaMgr m) (lastByte TYPE('a) a))"
    using mis by (auto simp add: read_def Let_def readRegister_def split: if_splits sum.splits)
next
  assume "isWrite (getPma (pmaMgr m) a)"
  then show "(fst (writeT h a v m) = Rejected Straddle)
              = (getPma (pmaMgr m) a \<noteq> getPma (pmaMgr m) (lastByte TYPE('a) a))"
    using mis by (auto simp add: writeT_def Let_def writeRegister_def split: if_splits)
next
  assume "isMapped (getPma (pmaMgr m) a)"
  then show "(fst (poke a v m) = Rejected Straddle)
              = (\<not> isMapped (getPma (pmaMgr m) (lastByte TYPE('a) a)))"
    using mis by (auto simp add: poke_def Let_def split: if_splits)
qed

text \<open>The half word at \<open>0xFFF\<close> runs from a plain page into the page of the memory
  mapped registers: \<open>read\<close> and \<open>write\<close> reject it as straddling, \<open>poke\<close> does not.\<close>

theorem straddle_rule_witness:
  "misaligned TYPE(16) 0xFFF
   \<and> isRead (getPma (pmaMgr scenarioMemory) 0xFFF)
   \<and> isWrite (getPma (pmaMgr scenarioMemory) 0xFFF)
   \<and> isMapped (getPma (pmaMgr scenarioMemory) 0xFFF)
   \<and> getPma (pmaMgr scenarioMemory) 0xFFF
        \<noteq> getPma (pmaMgr scenarioMemory) (lastByte TYPE(16) 0xFFF)
   \<and> isMapped (getPma (pmaMgr scenarioMemory) (lastByte TYPE(16) 0xFFF))
   \<and> (read 0xFFF scenarioMemory :: failure + 16 word) = Inl Straddle
   \<and> fst (writeT 0 0xFFF (0xDEAD :: 16 word) scenarioMemory) = Rejected Straddle
   \<and> fst (poke 0xFFF (0xDEAD :: 16 word) scenarioMemory) \<noteq> Rejected Straddle"
proof -
  have mis: "misaligned TYPE(16) 0xFFF"
    by (simp add: misaligned_def sizeof_simps)
  have gate: "isRead (getPma (pmaMgr scenarioMemory) 0xFFF)"
    "isWrite (getPma (pmaMgr scenarioMemory) 0xFFF)"
    "isMapped (getPma (pmaMgr scenarioMemory) 0xFFF)"
    by (simp_all add: scenarioMemory_fields scenarioPma pma_flags)
  have last: "getPma (pmaMgr scenarioMemory) 0xFFF
        \<noteq> getPma (pmaMgr scenarioMemory) (lastByte TYPE(16) 0xFFF)"
    "isMapped (getPma (pmaMgr scenarioMemory) (lastByte TYPE(16) 0xFFF))"
    by (simp_all add: scenarioMemory_fields scenarioPma pma_flags lastByte_def sizeof_simps)
  note th = straddle_rule[OF mis, where m = scenarioMemory and h = 0 and v = "0xDEAD"]
  show ?thesis
    using th mis gate last by simp
qed

section \<open>Write, then read\<close>

text \<open>
  Claim C5: for every address \<open>a < N\<close> and width \<open>T\<close>, if the page at \<open>a\<close> can be read
  and written, the access is aligned or does not straddle, and, when the page holds
  memory mapped registers, \<open>T\<close> is \<open>uint32_t\<close> and \<open>a\<close> is word-aligned, then
  \<open>write(a, v)\<close> (by a hart that has a slot) succeeds and a \<open>read(a)\<close> of the same
  width after it returns \<open>v & mask(a)\<close>: the write mask of the register for a memory
  mapped register, all ones elsewhere.
\<close>

theorem write_then_read:
  fixes v :: "'a::len word"
  assumes width: "LENGTH('a) \<in> {8, 16, 32, 64}"
    and bound: "a < mem_size m"
    and hart: "h < length (lastWriteData m)"
    and rd: "isRead (getPma (pmaMgr m) a)"
    and wr: "isWrite (getPma (pmaMgr m) a)"
    and ns: "\<not> misaligned TYPE('a) a
             \<or> getPma (pmaMgr m) (lastByte TYPE('a) a) = getPma (pmaMgr m) a"
    and mmr: "isMemMappedReg (getPma (pmaMgr m) a) \<longrightarrow> sizeof TYPE('a) = 4 \<and> a AND 3 = 0"
  shows "fst (writeT h a v m) = Done
    \<and> (read a (snd (writeT h a v m)) :: failure + 'a word)
        = Inr (v AND (if isMemMappedReg (getPma (pmaMgr m) a)
                      then ucast (getMemoryMappedMask a m) else - 1))"
proof (cases "isMemMappedReg (getPma (pmaMgr m) a)")
  case False
  have sz: "8 * sizeof TYPE('a) = LENGTH('a)" "sizeof TYPE('a) \<le> 8"
    using width by (auto simp add: sizeof_def)
  have w: "writeT h a v m =
      (Done, m\<lparr>lastWriteData := (lastWriteData m)[h :=
                  \<lparr>lwd_size = of_nat (sizeof TYPE('a)), lwd_addr = a, lwd_value = ucast v,
                   lwd_prevValue = ucast (load (data m) a :: 'a word)\<rparr>],
                data := store (data m) a v\<rparr>)"
    using False wr ns hart by (auto simp add: writeT_def Let_def)
  have "(read a (snd (writeT h a v m)) :: failure + 'a word)
          = Inr (load (store (data m) a v) a)"
    unfolding w using False rd ns by (auto simp add: read_def Let_def)
  then show ?thesis
    using False w by (simp add: load_store[OF sz])
next
  case True
  with mmr have four: "sizeof TYPE('a) = 4" and al: "a AND 3 = 0"
    by simp_all
  from four width have len: "LENGTH('a) = 32"
    by (auto simp add: sizeof_def)
  have sz32: "8 * sizeof TYPE(32) = LENGTH(32)" "sizeof TYPE(32) \<le> 8"
    by (simp_all add: sizeof_def)
  define v' where "v' = doRegisterMasking a (ucast v) m"
  have w: "writeT h a v m =
      (Done, m\<lparr>data := store (data m) a v',
                lastWriteData := (lastWriteData m)[h :=
                  \<lparr>lwd_size = 4, lwd_addr = a, lwd_value = ucast v',
                   lwd_prevValue = ucast (load (data m) a :: 32 word)\<rparr>]\<rparr>)"
    using True wr ns hart four al
    by (auto simp add: writeT_def writeRegister_def Let_def v'_def)
  have "(read a (snd (writeT h a v m)) :: failure + 'a word)
          = Inr (ucast (load (store (data m) a v') a :: 32 word))"
    unfolding w using True rd ns four al
    by (auto simp add: read_def readRegister_def Let_def)
  then have "(read a (snd (writeT h a v m)) :: failure + 'a word) = Inr (ucast v')"
    by (simp add: load_store[OF sz32])
  moreover have "(ucast v' :: 'a word) = v AND ucast (getMemoryMappedMask a m)"
    by (simp add: v'_def doRegisterMasking_def Let_def ucast_mask32[OF len])
  ultimately show ?thesis
    using True w by simp
qed

text \<open>The register at \<open>0x1000\<close>, with the write mask \<open>0x0000FFFF\<close>: the word
  \<open>0xAAAABBBB\<close> written there is read back as \<open>0x0000BBBB\<close>.\<close>

theorem write_then_read_witness:
  "LENGTH(32) \<in> {8, 16, 32, 64}
   \<and> 0x1000 < mem_size scenarioMemory
   \<and> 0 < length (lastWriteData scenarioMemory)
   \<and> isRead (getPma (pmaMgr scenarioMemory) 0x1000)
   \<and> isWrite (getPma (pmaMgr scenarioMemory) 0x1000)
   \<and> \<not> misaligned TYPE(32) 0x1000
   \<and> isMemMappedReg (getPma (pmaMgr scenarioMemory) 0x1000)
   \<and> sizeof TYPE(32) = 4 \<and> (0x1000 :: 64 word) AND 3 = 0
   \<and> fst (writeT 0 0x1000 (0xAAAABBBB :: 32 word) scenarioMemory) = Done
   \<and> (read 0x1000 (snd (writeT 0 0x1000 (0xAAAABBBB :: 32 word) scenarioMemory))
         :: failure + 32 word) = Inr 0xBBBB"
proof -
  have width: "LENGTH(32) \<in> {8, 16, 32, 64}"
    by simp
  have bound: "0x1000 < mem_size scenarioMemory"
    by (simp add: scenarioMemory_fields)
  have hart: "0 < length (lastWriteData scenarioMemory)"
    by (simp add: scenarioMemory_fields)
  have rd: "isRead (getPma (pmaMgr scenarioMemory) 0x1000)"
    and wr: "isWrite (getPma (pmaMgr scenarioMemory) 0x1000)"
    and reg: "isMemMappedReg (getPma (pmaMgr scenarioMemory) 0x1000)"
    by (simp_all add: scenarioMemory_fields scenarioPma pma_flags)
  have al: "\<not> misaligned TYPE(32) 0x1000"
    by (simp add: misaligned_def sizeof_simps)
  then have ns: "\<not> misaligned TYPE(32) 0x1000
      \<or> getPma (pmaMgr scenarioMemory) (lastByte TYPE(32) 0x1000)
          = getPma (pmaMgr scenarioMemory) 0x1000"
    by simp
  have word: "sizeof TYPE(32) = 4 \<and> (0x1000 :: 64 word) AND 3 = 0"
    by (simp add: sizeof_simps)
  then have mmr: "isMemMappedReg (getPma (pmaMgr scenarioMemory) 0x1000)
      \<longrightarrow> sizeof TYPE(32) = 4 \<and> (0x1000 :: 64 word) AND 3 = 0"
    by simp
  have msk: "(0xAAAABBBB :: 32 word) AND ucast (getMemoryMappedMask 0x1000 scenarioMemory)
      = 0xBBBB"
    by (simp add: getMemoryMappedMask_def scenarioMemory_fields scenarioMask)
  note th = write_then_read[OF width bound hart rd wr ns mmr, where v = "0xAAAABBBB"]
  show ?thesis
    using th width bound hart rd wr al reg word msk by simp
qed

section \<open>Memory mapped registers take words only\<close>

text \<open>
  Claim C6: at an address \<open>a\<close> of a page of memory mapped registers, a \<open>read\<close>, a
  \<open>write\<close> or a \<open>poke\<close> whose width is not that of \<open>uint32_t\<close>, or whose address is not
  word-aligned, returns failure, and so do \<open>readByte\<close>, \<open>writeByte\<close> and \<open>pokeByte\<close>:
  an access succeeds only with the width of a word at a word-aligned address.
\<close>

theorem mmr_word_access_only:
  fixes v :: "'a::len word"
  assumes mmr: "isMemMappedReg (getPma (pmaMgr m) a)"
  shows "(sizeof TYPE('a) \<noteq> 4 \<or> a AND 3 \<noteq> 0 \<longrightarrow>
            isl (read a m :: failure + 'a word)
            \<and> returnsFalse (fst (writeT h a v m))
            \<and> returnsFalse (fst (poke a v m)))
       \<and> isl (readByte a m)
       \<and> returnsFalse (fst (writeByte h a b m))
       \<and> returnsFalse (fst (pokeByte a b m))"
proof -
  have rd: "isl (read a m :: failure + 'a word)" if "sizeof TYPE('a) \<noteq> 4 \<or> a AND 3 \<noteq> 0"
    using mmr that by (auto simp add: read_def Let_def readRegister_def)
  have wr: "returnsFalse (fst (writeT h a v m))" if "sizeof TYPE('a) \<noteq> 4 \<or> a AND 3 \<noteq> 0"
    using mmr that by (auto simp add: writeT_def Let_def writeRegister_def returnsFalse_def)
  have pk: "returnsFalse (fst (poke a v m))" if "sizeof TYPE('a) \<noteq> 4 \<or> a AND 3 \<noteq> 0"
    using mmr that by (auto simp add: poke_def Let_def returnsFalse_def)
  have rb: "isl (readByte a m)"
    using mmr by (simp add: readByte_def Let_def)
  have wb: "returnsFalse (fst (writeByte h a b m))"
    using mmr by (simp add: writeByte_def Let_def returnsFalse_def)
  have pb: "returnsFalse (fst (pokeByte a b m))"
    using mmr by (simp add: pokeByte_def Let_def returnsFalse_def)
  show ?thesis
    using rd wr pk rb wb pb by blast
qed

text \<open>Half words and bytes at the register at \<open>0x1000\<close> are refused.\<close>

theorem mmr_word_access_only_witness:
  "isMemMappedReg (getPma (pmaMgr scenarioMemory) 0x1000)
   \<and> sizeof TYPE(16) \<noteq> 4
   \<and> isl (read 0x1000 scenarioMemory :: failure + 16 word)
   \<and> returnsFalse (fst (writeT 0 0x1000 (0x11 :: 16 word) scenarioMemory))
   \<and> returnsFalse (fst (poke 0x1000 (0x11 :: 16 word) scenarioMemory))
   \<and> isl (readByte 0x1000 scenarioMemory)
   \<and> returnsFalse (fst (writeByte 0 0x1000 0x11 scenarioMemory))
   \<and> returnsFalse (fst (pokeByte 0x1000 0x11 scenarioMemory))"
proof -
  have reg: "isMemMappedReg (getPma (pmaMgr scenarioMemory) 0x1000)"
    by (simp add: scenarioMemory_fields scenarioPma pma_flags)
  have half: "sizeof TYPE(16) \<noteq> 4"
    by (simp add: sizeof_simps)
  note th = mmr_word_access_only[OF reg, where 'a = 16 and h = 0 and v = "0x11" and b = "0x11"]
  show ?thesis
    using th reg half by simp
qed

section \<open>Invalidation of the reservations of the other harts\<close>

text \<open>
  Against claim C7 as stated: hart 1 holds a valid reservation at \<open>0x200\<close> of size 0.
  The test in the words of the claim holds for a store of 4 bytes at \<open>0x200\<close> by hart
  0, since \<open>res.addr\<close> lies in \<open>[0x200, 0x204)\<close>, but \<open>invalidateOtherHartLr\<close> leaves the
  reservation valid: its second comparison is \<open>addr < res.addr_\<close>, which excludes
  \<open>res.addr = addr\<close>.
\<close>

theorem invalidateOtherHartLr_counterexample:
  "res_addr (reservations emptyReservationMemory ! 1) = 0x200
   \<and> res_size (reservations emptyReservationMemory ! 1) = 0
   \<and> res_valid (reservations emptyReservationMemory ! 1)
   \<and> (0 :: 32 word) < 4
   \<and> specIntersects 0x200 4 (reservations emptyReservationMemory ! 1)
   \<and> res_valid (reservations (invalidateOtherHartLr 0 0x200 4 emptyReservationMemory) ! 1)"
  by (simp add: emptyReservationMemory_fields specIntersects_def invalidateOtherHartLr_def
      invalidateMatching_def)

text \<open>
  Claim C7, amended: \<open>invalidateOtherHartLr(h, addr, s)\<close> clears the reservation of a
  hart \<open>h' \<noteq> h\<close> exactly when \<open>addr\<close> lies in \<open>[res.addr, res.addr + res.size)\<close> or
  \<open>res.addr\<close> lies strictly above \<open>addr\<close> and below \<open>addr + s\<close>, and leaves it as it
  was otherwise; in particular a reservation with \<open>res.addr = addr\<close> and
  \<open>res.size = 0\<close> is not cleared. The reservation of hart \<open>h\<close> is left as it was.
\<close>

theorem invalidateOtherHartLr_clears:
  "(\<forall>h' < length (reservations m). h' \<noteq> h \<longrightarrow>
      reservations (invalidateOtherHartLr h addr s m) ! h'
        = (if lrIntersects addr s (reservations m ! h')
           then (reservations m ! h')\<lparr>res_valid := False\<rparr>
           else reservations m ! h')
      \<and> (res_addr (reservations m ! h') = addr \<and> res_size (reservations m ! h') = 0
          \<longrightarrow> reservations (invalidateOtherHartLr h addr s m) ! h' = reservations m ! h'))
   \<and> (h < length (reservations m) \<longrightarrow>
        reservations (invalidateOtherHartLr h addr s m) ! h = reservations m ! h)
   \<and> length (reservations (invalidateOtherHartLr h addr s m)) = length (reservations m)"
proof -
  have "\<not> lrIntersects addr s r" if "res_addr r = addr" "res_size r = 0" for r
    using that by (simp add: lrIntersects_def)
  then show ?thesis
    by (simp add: invalidateOtherHartLr_def nth_otherHartLoop length_otherHartLoop
        invalidateMatching_eq)
qed

text \<open>Two stores of 4 bytes by hart 0: the one at \<open>0x200\<close> leaves the empty
  reservation of hart 1 at \<open>0x200\<close> valid, the one at \<open>0x1FE\<close> clears it; none touches
  the reservation of hart 0.\<close>

theorem invalidateOtherHartLr_clears_witness:
  "1 < length (reservations emptyReservationMemory) \<and> (1 :: nat) \<noteq> 0
   \<and> 0 < length (reservations emptyReservationMemory)
   \<and> res_addr (reservations emptyReservationMemory ! 1) = 0x200
   \<and> res_size (reservations emptyReservationMemory ! 1) = 0
   \<and> reservations (invalidateOtherHartLr 0 0x200 4 emptyReservationMemory) ! 1
        = reservations emptyReservationMemory ! 1
   \<and> lrIntersects 0x1FE 4 (reservations emptyReservationMemory ! 1)
   \<and> reservations (invalidateOtherHartLr 0 0x1FE 4 emptyReservationMemory) ! 1
        = \<lparr>res_addr = 0x200, res_size = 0, res_valid = False\<rparr>
   \<and> reservations (invalidateOtherHartLr 0 0x200 4 emptyReservationMemory) ! 0
        = reservations emptyReservationMemory ! 0"
proof -
  have len: "1 < length (reservations emptyReservationMemory)"
    "0 < length (reservations emptyReservationMemory)"
    by (simp_all add: emptyReservationMemory_fields)
  have r1: "reservations emptyReservationMemory ! 1
      = \<lparr>res_addr = 0x200, res_size = 0, res_valid = True\<rparr>"
    by (simp add: emptyReservationMemory_fields)
  have r1': "reservations emptyReservationMemory ! Suc 0
      = \<lparr>res_addr = 0x200, res_size = 0, res_valid = True\<rparr>"
    by (simp add: emptyReservationMemory_fields)
  have hit: "lrIntersects 0x1FE 4 (reservations emptyReservationMemory ! 1)"
    unfolding r1 by (simp add: lrIntersects_def)
  note at = invalidateOtherHartLr_clears[of emptyReservationMemory 0 "0x200" 4]
  note below = invalidateOtherHartLr_clears[of emptyReservationMemory 0 "0x1FE" 4]
  have a: "reservations (invalidateOtherHartLr 0 0x200 4 emptyReservationMemory) ! 1
        = reservations emptyReservationMemory ! 1"
    using at[THEN conjunct1, rule_format, of 1] len(1) r1 by (simp add: lrIntersects_def)
  have b: "reservations (invalidateOtherHartLr 0 0x1FE 4 emptyReservationMemory) ! 1
        = \<lparr>res_addr = 0x200, res_size = 0, res_valid = False\<rparr>"
    using below[THEN conjunct1, rule_format, of 1] len(1) hit by (simp add: r1')
  have c: "reservations (invalidateOtherHartLr 0 0x200 4 emptyReservationMemory) ! 0
        = reservations emptyReservationMemory ! 0"
    using at[THEN conjunct2, THEN conjunct1] len(2) by simp
  show ?thesis
    using len r1 hit a b c by simp
qed

section \<open>Failed writes\<close>

text \<open>
  Claim C8: if \<open>write(h, a, v)\<close> or \<open>poke(a, v)\<close> returns \<open>false\<close>, the state is the state
  before the call: no byte of the backing store and no slot of a last write has
  changed. The same holds for \<open>writeByte\<close> and \<open>pokeByte\<close>.
\<close>

theorem failed_write_no_effect:
  "(returnsFalse (fst (writeT h a v m)) \<longrightarrow> snd (writeT h a v m) = m)
   \<and> (returnsFalse (fst (poke a w m)) \<longrightarrow> snd (poke a w m) = m)
   \<and> (returnsFalse (fst (writeByte h a b m)) \<longrightarrow> snd (writeByte h a b m) = m)
   \<and> (returnsFalse (fst (pokeByte a b m)) \<longrightarrow> snd (pokeByte a b m) = m)"
proof (intro conjI impI)
  assume "returnsFalse (fst (writeT h a v m))"
  then show "snd (writeT h a v m) = m"
    by (intro writeT_rejected returnsFalse_not_Done)
next
  assume "returnsFalse (fst (poke a w m))"
  then show "snd (poke a w m) = m"
    by (intro poke_rejected returnsFalse_not_Done)
next
  assume "returnsFalse (fst (writeByte h a b m))"
  then show "snd (writeByte h a b m) = m"
    by (auto simp add: writeByte_def Let_def returnsFalse_def split: if_splits)
next
  assume "returnsFalse (fst (pokeByte a b m))"
  then show "snd (pokeByte a b m) = m"
    by (auto simp add: pokeByte_def Let_def returnsFalse_def split: if_splits)
qed

text \<open>Nothing is mapped at \<open>0x200000\<close>: the four stores return \<open>false\<close> and leave the
  memory as it was.\<close>

theorem failed_write_no_effect_witness:
  "returnsFalse (fst (writeT 0 0x200000 (1 :: 32 word) scenarioMemory))
   \<and> returnsFalse (fst (poke 0x200000 (1 :: 32 word) scenarioMemory))
   \<and> returnsFalse (fst (writeByte 0 0x200000 1 scenarioMemory))
   \<and> returnsFalse (fst (pokeByte 0x200000 1 scenarioMemory))
   \<and> snd (writeT 0 0x200000 (1 :: 32 word) scenarioMemory) = scenarioMemory
   \<and> snd (poke 0x200000 (1 :: 32 word) scenarioMemory) = scenarioMemory
   \<and> snd (writeByte 0 0x200000 1 scenarioMemory) = scenarioMemory
   \<and> snd (pokeByte 0x200000 1 scenarioMemory) = scenarioMemory"
proof -
  have w: "returnsFalse (fst (writeT 0 0x200000 (1 :: 32 word) scenarioMemory))"
    by (simp add: writeT_def Let_def scenarioMemory_fields scenarioPma pma_flags
        returnsFalse_def)
  have p: "returnsFalse (fst (poke 0x200000 (1 :: 32 word) scenarioMemory))"
    by (simp add: poke_def Let_def scenarioMemory_fields scenarioPma pma_flags
        returnsFalse_def)
  have wb: "returnsFalse (fst (writeByte 0 0x200000 1 scenarioMemory))"
    by (simp add: writeByte_def Let_def scenarioMemory_fields scenarioPma pma_flags
        returnsFalse_def)
  have pb: "returnsFalse (fst (pokeByte 0x200000 1 scenarioMemory))"
    by (simp add: pokeByte_def Let_def scenarioMemory_fields scenarioPma pma_flags
        returnsFalse_def)
  note th = failed_write_no_effect[of 0 "0x200000" "1 :: 32 word" scenarioMemory
      "1 :: 32 word" 1]
  show ?thesis
    using th w p wb pb by simp
qed

section \<open>Instruction identities\<close>

lemma InstId_first: "fst (hd InstId_enumerators) = ''illegal''"
  by code_simp

lemma InstId_illegal: "InstId_value ''illegal'' = Some 0"
  by code_simp

lemma InstId_last_opcode: "last opcodeNames = ''vrgather_vi''"
  by code_simp

lemma InstId_maxId: "InstId_value ''maxId'' = InstId_value ''vrgather_vi''"
  by code_simp

lemma InstId_range:
  "(case (InstId_values, InstId_value ''illegal'', InstId_value ''maxId'') of
      (Some vs, Some lo, Some hi) \<Rightarrow>
        list_all (\<lambda>(name, v). lo \<le> v \<and> v \<le> hi \<and> (name = ''illegal'' \<or> lo < v)) vs
    | _ \<Rightarrow> False)"
  by code_simp

text \<open>
  Claim C9: in \<open>InstId\<close> the identity \<open>illegal\<close> is the first enumerator, of value 0,
  below the value of every other enumerator; the sentinel \<open>maxId\<close> has the value of
  \<open>vrgather_vi\<close>, the last opcode enumerator; and every enumerator has a value from
  that of \<open>illegal\<close> up to that of \<open>maxId\<close>.
\<close>

theorem InstId_illegal_first_maxId_last:
  "fst (hd InstId_enumerators) = ''illegal''
   \<and> InstId_value ''illegal'' = Some 0
   \<and> last opcodeNames = ''vrgather_vi''
   \<and> InstId_value ''maxId'' = InstId_value ''vrgather_vi''
   \<and> (case (InstId_values, InstId_value ''illegal'', InstId_value ''maxId'') of
        (Some vs, Some lo, Some hi) \<Rightarrow>
          list_all (\<lambda>(name, v). lo \<le> v \<and> v \<le> hi \<and> (name = ''illegal'' \<or> lo < v)) vs
      | _ \<Rightarrow> False)"
  using InstId_first InstId_illegal InstId_last_opcode InstId_maxId InstId_range
  by (intro conjI)

section \<open>Reservations are set by makeLr only\<close>

text \<open>
  Claim C10: \<open>invalidateLr\<close>, \<open>invalidateOtherHartLr\<close> and \<open>invalidateLrs\<close> only clear
  valid flags: every hart keeps the address and the size of its reservation, and no
  reservation that was invalid is valid after them. \<open>makeLr\<close> sets the reservation of
  its hart valid, and it is the only operation that does: writes, pokes and
  \<open>clearLastWriteInfo\<close> leave the reservations as they are, and the slots that
  \<open>setHartCount\<close> adds are not valid.
\<close>

theorem invalidation_only_clears:
  "onlyClears (reservations m) (reservations (snd (invalidateLr h m)))
   \<and> onlyClears (reservations m) (reservations (invalidateOtherHartLr h a s m))
   \<and> onlyClears (reservations m) (reservations (invalidateLrs a s m))
   \<and> (h < length (reservations m) \<longrightarrow>
        fst (makeLr h a s m) = Done
        \<and> reservations (snd (makeLr h a s m)) ! h
            = \<lparr>res_addr = a, res_size = s, res_valid = True\<rparr>)
   \<and> reservations (snd (writeT h a v m)) = reservations m
   \<and> reservations (snd (writeByte h a b m)) = reservations m
   \<and> reservations (snd (poke a w m)) = reservations m
   \<and> reservations (snd (pokeByte a b m)) = reservations m
   \<and> reservations (snd (clearLastWriteInfo h m)) = reservations m
   \<and> (\<forall>i < n. res_valid (reservations (setHartCount n m) ! i)
        \<longrightarrow> i < length (reservations m) \<and> res_valid (reservations m ! i))"
proof -
  have 1: "onlyClears (reservations m) (reservations (snd (invalidateLr h m)))"
    by (auto simp add: onlyClears_def invalidateLr_def list_all2_conv_all_nth nth_list_update)
  have 2: "onlyClears (reservations m) (reservations (invalidateOtherHartLr h a s m))"
    by (simp add: onlyClears_def invalidateOtherHartLr_def list_all2_conv_all_nth
        length_otherHartLoop nth_otherHartLoop invalidateMatching_fields)
  have 3: "onlyClears (reservations m) (reservations (invalidateLrs a s m))"
    by (simp add: onlyClears_def invalidateLrs_def list_all2_conv_all_nth
        allHartLoop_map invalidateMatching_fields)
  have 4: "fst (makeLr h a s m) = Done
        \<and> reservations (snd (makeLr h a s m)) ! h
            = \<lparr>res_addr = a, res_size = s, res_valid = True\<rparr>"
    if "h < length (reservations m)"
    using that by (simp add: makeLr_def)
  have 5: "reservations (snd (writeT h a v m)) = reservations m"
    by (simp add: writeT_frame)
  have 6: "reservations (snd (writeByte h a b m)) = reservations m"
    by (simp add: writeByte_def Let_def)
  have 7: "reservations (snd (poke a w m)) = reservations m"
    by (simp add: poke_frame)
  have 8: "reservations (snd (pokeByte a b m)) = reservations m"
    by (simp add: pokeByte_def Let_def)
  have 9: "reservations (snd (clearLastWriteInfo h m)) = reservations m"
    by (simp add: clearLastWriteInfo_def)
  have 10: "i < length (reservations m) \<and> res_valid (reservations m ! i)"
    if "i < n" "res_valid (reservations (setHartCount n m) ! i)" for i
    using that by (cases "i < length (reservations m)")
      (auto simp add: setHartCount_def resize_def nth_append)
  show ?thesis
    using 1 2 3 4 5 6 7 8 9 10 by blast
qed

text \<open>In \<open>reservedMemory\<close> hart 0 holds a valid reservation: it stays valid through an
  invalidation for hart 1 and through one for an address elsewhere, and through a
  change of the hart count to three; \<open>makeLr\<close> for hart 1 sets its reservation.\<close>

theorem invalidation_only_clears_witness:
  "1 < length (reservations reservedMemory)
   \<and> res_valid (reservations (snd (invalidateLr 1 reservedMemory)) ! 0)
   \<and> res_valid (reservations reservedMemory ! 0)
   \<and> onlyClears (reservations reservedMemory)
        (reservations (snd (invalidateLr 1 reservedMemory)))
   \<and> onlyClears (reservations reservedMemory)
        (reservations (invalidateOtherHartLr 1 0x300 4 reservedMemory))
   \<and> onlyClears (reservations reservedMemory)
        (reservations (invalidateLrs 0x300 4 reservedMemory))
   \<and> fst (makeLr 1 0x300 4 reservedMemory) = Done
   \<and> reservations (snd (makeLr 1 0x300 4 reservedMemory)) ! 1
        = \<lparr>res_addr = 0x300, res_size = 4, res_valid = True\<rparr>
   \<and> (0 :: nat) < 3
   \<and> res_valid (reservations (setHartCount 3 reservedMemory) ! 0)"
proof -
  have len: "1 < length (reservations reservedMemory)"
    by (simp add: reservedMemory_fields)
  have v0: "res_valid (reservations reservedMemory ! 0)"
    by (simp add: reservedMemory_fields)
  have v1: "res_valid (reservations (snd (invalidateLr 1 reservedMemory)) ! 0)"
    by (simp add: invalidateLr_def reservedMemory_fields)
  have v3: "res_valid (reservations (setHartCount 3 reservedMemory) ! 0)"
    by (simp add: setHartCount_def resize_def reservedMemory_fields)
  note th = invalidation_only_clears[of reservedMemory 1 "0x300" 4 "1 :: 32 word" 1
      "1 :: 32 word" 3]
  show ?thesis
    using th len v0 v1 v3 by simp
qed

end
